theory Spec2Isabelle
  imports Complex_Main
begin

section \<open>Parsed JSON and the Python operations the quiz applies to it\<close>

text \<open>
  \<^verbatim>\<open>json.load\<close> hands the program an arbitrary JSON value; nothing in
  \<^verbatim>\<open>GUI_quiz.py\<close> checks its shape. A float is kept by the exact rational value
  of the double (all the program does with one is compare it with an integer, which Python
  does exactly). A parsed object is an association list with distinct keys.
\<close>

datatype pyfloat = Finite rat | PosInf | NegInf | NaN

datatype json =
    JNull
  | JBool bool
  | JInt int
  | JFloat pyfloat
  | JStr string
  | JList "json list"
  | JDict "(string \<times> json) list"

datatype py_error =
    IndexError | KeyError | TypeError
  | UnicodeDecodeError | ValueError | OSError | RecursionError

text \<open>\<^verbatim>\<open>xs[i]\<close> on a Python sequence: a negative index counts from the end.\<close>

definition py_index :: "'a list \<Rightarrow> int \<Rightarrow> py_error + 'a" where
  "py_index xs i =
     (let n = int (length xs); j = (if i < 0 then i + n else i)
      in if 0 \<le> j \<and> j < n then Inr (xs ! nat j) else Inl IndexError)"

text \<open>The values Python accepts as a sequence index: \<^verbatim>\<open>int\<close> and its subclass
  \<^verbatim>\<open>bool\<close>.\<close>

fun as_index :: "json \<Rightarrow> int option" where
  "as_index (JInt i) = Some i"
| "as_index (JBool b) = Some (if b then 1 else 0)"
| "as_index _ = None"

text \<open>\<^verbatim>\<open>obj[key]\<close>. The keys of a parsed object are strings, so any other hashable
  key is absent from it; a list or dict key is unhashable.\<close>

fun py_getitem :: "json \<Rightarrow> json \<Rightarrow> py_error + json" where
  "py_getitem (JList xs) k =
     (case as_index k of Some i \<Rightarrow> py_index xs i | None \<Rightarrow> Inl TypeError)"
| "py_getitem (JStr s) k =
     (case as_index k of
        Some i \<Rightarrow> (case py_index s i of Inr c \<Rightarrow> Inr (JStr [c]) | Inl e \<Rightarrow> Inl e)
      | None \<Rightarrow> Inl TypeError)"
| "py_getitem (JDict kvs) (JStr k) =
     (case map_of kvs k of Some v \<Rightarrow> Inr v | None \<Rightarrow> Inl KeyError)"
| "py_getitem (JDict kvs) (JList ys) = Inl TypeError"
| "py_getitem (JDict kvs) (JDict ys) = Inl TypeError"
| "py_getitem (JDict kvs) k = Inl KeyError"
| "py_getitem obj k = Inl TypeError"

text \<open>\<^verbatim>\<open>len(obj)\<close>.\<close>

fun py_len :: "json \<Rightarrow> py_error + int" where
  "py_len (JList xs) = Inr (int (length xs))"
| "py_len (JStr s) = Inr (int (length s))"
| "py_len (JDict kvs) = Inr (int (length (remdups (map fst kvs))))"
| "py_len obj = Inl TypeError"

text \<open>The items a \<^verbatim>\<open>for\<close> loop over \<^verbatim>\<open>obj\<close> visits.\<close>

fun py_iter :: "json \<Rightarrow> py_error + json list" where
  "py_iter (JList xs) = Inr xs"
| "py_iter (JStr s) = Inr (map (\<lambda>c. JStr [c]) s)"
| "py_iter (JDict kvs) = Inr (map JStr (remdups (map fst kvs)))"
| "py_iter obj = Inl TypeError"

text \<open>\<^verbatim>\<open>user_answer == v\<close> for a Python \<^verbatim>\<open>int\<close> on the left.\<close>

fun py_eq_int :: "int \<Rightarrow> json \<Rightarrow> bool" where
  "py_eq_int a (JInt n) = (a = n)"
| "py_eq_int a (JBool b) = (a = (if b then 1 else 0))"
| "py_eq_int a (JFloat (Finite r)) = (of_int a = r)"
| "py_eq_int a v = False"

section \<open>Widgets\<close>

text \<open>
  Of a widget the model keeps the options the program changes after creation (text, state,
  colours); fonts, padding and geometry are fixed at creation and left out. A text is kept
  as the program builds it: a literal, a JSON value handed to Tk as it is, or an f-string.
\<close>

datatype fragment = Lit string | Fmt json

datatype display = Str string | Value json | FString "fragment list"

datatype wstate = Normal | Disabled

record button =
  btn_text :: display
  btn_state :: wstate
  btn_bg :: string

record label =
  lbl_text :: display
  lbl_fg :: "string option"

datatype dialog = ShowError string string | ShowInfo string display

text \<open>\<^verbatim>\<open>widgets[i].config(...)\<close> for a Python \<^verbatim>\<open>int\<close> \<open>i\<close>.\<close>

definition config_at :: "'a list \<Rightarrow> int \<Rightarrow> ('a \<Rightarrow> 'a) \<Rightarrow> py_error + 'a list" where
  "config_at ws i f =
     (let n = int (length ws); j = (if i < 0 then i + n else i)
      in if 0 \<le> j \<and> j < n then Inr (ws[nat j := f (ws ! nat j)]) else Inl IndexError)"

text \<open>The same with a JSON value as the index.\<close>

definition config_at_json :: "'a list \<Rightarrow> json \<Rightarrow> ('a \<Rightarrow> 'a) \<Rightarrow> py_error + 'a list" where
  "config_at_json ws k f =
     (case as_index k of Some i \<Rightarrow> config_at ws i f | None \<Rightarrow> Inl TypeError)"

section \<open>The application object\<close>

record quiz_app =
  quiz_questions :: json
  score :: int
  total_questions :: int
  current_question_index :: int
  question_label :: label
  alternative_buttons :: "button list"
  feedback_label :: label
  score_label :: label
  next_button :: button

text \<open>
  What a method call leaves behind. An exception raised inside a Tk callback is reported
  and the main loop goes on, so the object keeps every assignment made before the raise.
  \<open>Quit\<close>: the final dialog was shown and the root window destroyed, which ends the
  main loop and the program.
\<close>

datatype outcome =
    is_Returned: Returned (app_of: quiz_app)
  | is_Raised: Raised (exn: py_error) (app_of: quiz_app)
  | is_Quit: Quit (final: dialog) (app_of: quiz_app)

text \<open>
  What \<^verbatim>\<open>open\<close> and \<^verbatim>\<open>json.load\<close> do with the question file.
  \<open>FileMissing\<close>: \<^verbatim>\<open>open\<close> raises \<^verbatim>\<open>FileNotFoundError\<close>. \<open>NotJson\<close>:
  \<^verbatim>\<open>json.load\<close> raises \<^verbatim>\<open>json.JSONDecodeError\<close>. \<open>LoadRaises e\<close>: one of them
  raises any other exception, which neither \<^verbatim>\<open>except\<close> clause names: \<^verbatim>\<open>UnicodeDecodeError\<close>
  on bytes that are no text in the file's encoding, \<^verbatim>\<open>ValueError\<close> on an integer
  literal with more digits than the interpreter converts, an \<^verbatim>\<open>OSError\<close> other than
  \<^verbatim>\<open>FileNotFoundError\<close> (no permission, a directory), \<^verbatim>\<open>RecursionError\<close> on
  nesting too deep. \<open>Parsed v\<close>: \<^verbatim>\<open>json.load\<close> returns \<open>v\<close>.
\<close>

datatype source = FileMissing | NotJson | LoadRaises py_error | Parsed json

text \<open>
  How \<^verbatim>\<open>QuizApp(root)\<close> ends. \<open>Aborted\<close>: an error dialog, \<^verbatim>\<open>root.destroy()\<close>
  and an early \<^verbatim>\<open>return\<close>, before any state variable is assigned. \<open>Crashed\<close>: an
  exception leaves \<^verbatim>\<open>__init__\<close>, nothing catches it and the program dies before the
  main loop. \<open>Started\<close>: the object is built and the first question is on display.
\<close>

datatype startup =
    is_Aborted: Aborted dialog
  | is_Crashed: Crashed py_error
  | is_Started: Started (the_app: quiz_app)

subsection \<open>\<^verbatim>\<open>setup_widgets\<close>\<close>

definition new_alternative_button :: button where
  "new_alternative_button = \<lparr>btn_text = Str '''', btn_state = Normal, btn_bg = ''#4CAF50''\<rparr>"

definition setup_widgets :: "json \<Rightarrow> int \<Rightarrow> int \<Rightarrow> int \<Rightarrow> quiz_app" where
  "setup_widgets qs sc tot idx =
     \<lparr>quiz_questions = qs, score = sc, total_questions = tot, current_question_index = idx,
      question_label = \<lparr>lbl_text = Str '''', lbl_fg = Some ''#333333''\<rparr>,
      alternative_buttons = map (\<lambda>i. new_alternative_button) [0..<3],
      feedback_label = \<lparr>lbl_text = Str '''', lbl_fg = None\<rparr>,
      score_label = \<lparr>lbl_text = Str ''Score: 0'', lbl_fg = Some ''#333333''\<rparr>,
      next_button = \<lparr>btn_text = Str ''Next'', btn_state = Disabled, btn_bg = ''#008CBA''\<rparr>\<rparr>"

subsection \<open>\<^verbatim>\<open>load_question\<close>\<close>

text \<open>The loop \<^verbatim>\<open>for i, alternative in enumerate(alternatives)\<close>, from position \<open>i\<close>.\<close>

fun set_alternative_texts :: "nat \<Rightarrow> json list \<Rightarrow> button list \<Rightarrow> py_error option \<times> button list" where
  "set_alternative_texts i [] bs = (None, bs)"
| "set_alternative_texts i (alternative # rest) bs =
     (if i < length bs
      then set_alternative_texts (Suc i) rest (bs[i := (bs ! i)\<lparr>btn_text := Value alternative\<rparr>])
      else (Some IndexError, bs))"

definition reset_widgets :: "quiz_app \<Rightarrow> quiz_app" where
  "reset_widgets app =
     app\<lparr>feedback_label := (feedback_label app)\<lparr>lbl_text := Str ''''\<rparr>,
         next_button := (next_button app)\<lparr>btn_state := Disabled\<rparr>,
         alternative_buttons :=
           map (\<lambda>btn. btn\<lparr>btn_state := Normal, btn_bg := ''#4CAF50''\<rparr>) (alternative_buttons app)\<rparr>"

definition load_question :: "quiz_app \<Rightarrow> outcome" where
  "load_question app0 =
     (let app = reset_widgets app0 in
      case py_getitem (quiz_questions app) (JInt (current_question_index app)) of
        Inl e \<Rightarrow> Raised e app
      | Inr question_data \<Rightarrow>
     (case py_getitem question_data (JStr ''question'') of
        Inl e \<Rightarrow> Raised e app
      | Inr q \<Rightarrow>
     (let app = app\<lparr>question_label := (question_label app)\<lparr>lbl_text := Value q\<rparr>\<rparr> in
      case py_getitem question_data (JStr ''alternatives'') of
        Inl e \<Rightarrow> Raised e app
      | Inr alternatives \<Rightarrow>
     (case py_iter alternatives of
        Inl e \<Rightarrow> Raised e app
      | Inr items \<Rightarrow>
     (case set_alternative_texts 0 items (alternative_buttons app) of
        (None, bs) \<Rightarrow> Returned (app\<lparr>alternative_buttons := bs\<rparr>)
      | (Some e, bs) \<Rightarrow> Raised e (app\<lparr>alternative_buttons := bs\<rparr>))))))"

subsection \<open>\<^verbatim>\<open>check_answer\<close>\<close>

definition finish_answer :: "quiz_app \<Rightarrow> outcome" where
  "finish_answer app =
     Returned (app\<lparr>score_label := (score_label app)\<lparr>lbl_text := FString [Lit ''Score: '', Fmt (JInt (score app))]\<rparr>,
                   next_button := (next_button app)\<lparr>btn_state := Normal\<rparr>\<rparr>)"

definition answer_correct :: "int \<Rightarrow> quiz_app \<Rightarrow> outcome" where
  "answer_correct user_answer app0 =
     (let app = app0\<lparr>score := score app0 + 1\<rparr>;
          app = app\<lparr>feedback_label := \<lparr>lbl_text = Str ''Correct!'', lbl_fg = Some ''green''\<rparr>\<rparr> in
      case config_at (alternative_buttons app) user_answer (\<lambda>b. b\<lparr>btn_bg := ''green''\<rparr>) of
        Inl e \<Rightarrow> Raised e app
      | Inr bs \<Rightarrow> finish_answer (app\<lparr>alternative_buttons := bs\<rparr>))"

definition answer_incorrect :: "int \<Rightarrow> json \<Rightarrow> json \<Rightarrow> quiz_app \<Rightarrow> outcome" where
  "answer_incorrect user_answer question_data correct_answer_index app0 =
     (let app = app0\<lparr>score := score app0 - 1\<rparr> in
      case py_getitem question_data (JStr ''alternatives'') of
        Inl e \<Rightarrow> Raised e app
      | Inr alternatives \<Rightarrow>
     (case py_getitem alternatives correct_answer_index of
        Inl e \<Rightarrow> Raised e app
      | Inr correct_answer_text \<Rightarrow>
     (let app = app\<lparr>feedback_label :=
                   \<lparr>lbl_text = FString [Lit ''Incorrect! The correct answer was: '', Fmt correct_answer_text],
                    lbl_fg = Some ''red''\<rparr>\<rparr> in
      case config_at (alternative_buttons app) user_answer (\<lambda>b. b\<lparr>btn_bg := ''red''\<rparr>) of
        Inl e \<Rightarrow> Raised e app
      | Inr bs \<Rightarrow>
     (let app = app\<lparr>alternative_buttons := bs\<rparr> in
      case config_at_json (alternative_buttons app) correct_answer_index (\<lambda>b. b\<lparr>btn_bg := ''lightgreen''\<rparr>) of
        Inl e \<Rightarrow> Raised e app
      | Inr bs \<Rightarrow> finish_answer (app\<lparr>alternative_buttons := bs\<rparr>)))))"

definition check_answer :: "int \<Rightarrow> quiz_app \<Rightarrow> outcome" where
  "check_answer user_answer app0 =
     (let app = app0\<lparr>alternative_buttons :=
                   map (\<lambda>btn. btn\<lparr>btn_state := Disabled\<rparr>) (alternative_buttons app0)\<rparr> in
      case py_getitem (quiz_questions app) (JInt (current_question_index app)) of
        Inl e \<Rightarrow> Raised e app
      | Inr question_data \<Rightarrow>
     (case py_getitem question_data (JStr ''correct_answer'') of
        Inl e \<Rightarrow> Raised e app
      | Inr correct_answer_index \<Rightarrow>
          if py_eq_int user_answer correct_answer_index
          then answer_correct user_answer app
          else answer_incorrect user_answer question_data correct_answer_index app))"

subsection \<open>\<^verbatim>\<open>show_final_results\<close> and \<^verbatim>\<open>next_question\<close>\<close>

definition result_message :: "int \<Rightarrow> int \<Rightarrow> string" where
  "result_message sc tot =
     (if sc = tot then ''Congratulations! You've passed the quiz with a perfect score.''
      else if sc \<ge> tot div 2 then ''You've achieved a good score.''
      else ''You've failed the quiz. Better luck next time!'')"

definition final_text :: "int \<Rightarrow> int \<Rightarrow> display" where
  "final_text sc tot =
     FString [Lit ''Quiz Completed!\<newline>\<newline>Your final score is '', Fmt (JInt sc),
              Lit '' out of '', Fmt (JInt tot), Lit ''.\<newline>\<newline>'',
              Lit (result_message sc tot)]"

definition show_final_results :: "quiz_app \<Rightarrow> outcome" where
  "show_final_results app =
     Quit (ShowInfo ''Quiz Over'' (final_text (score app) (total_questions app))) app"

definition next_question :: "quiz_app \<Rightarrow> outcome" where
  "next_question app0 =
     (let app = app0\<lparr>current_question_index := current_question_index app0 + 1\<rparr> in
      if current_question_index app < total_questions app
      then load_question app
      else show_final_results app)"

subsection \<open>\<^verbatim>\<open>__init__\<close>\<close>

definition init_app :: "source \<Rightarrow> startup" where
  "init_app src =
     (case src of
        FileMissing \<Rightarrow> Aborted (ShowError ''Error'' ''quiz_questions.json not found!'')
      | NotJson \<Rightarrow> Aborted (ShowError ''Error'' ''Invalid format in quiz_questions.json!'')
      | LoadRaises e \<Rightarrow> Crashed e
      | Parsed qs \<Rightarrow>
     (case py_len qs of
        Inl e \<Rightarrow> Crashed e
      | Inr tot \<Rightarrow>
     (case load_question (setup_widgets qs 0 tot 0) of
        Returned app \<Rightarrow> Started app
      | Raised e app \<Rightarrow> Crashed e
      | Quit d app \<Rightarrow> Aborted d)))"

section \<open>The main loop\<close>

text \<open>
  Tk runs a button's command only while the button is not disabled. Alternative button
  \<open>i\<close> was created with the command \<^verbatim>\<open>lambda i=i: self.check_answer(i)\<close>, the
  Next button with \<^verbatim>\<open>self.next_question\<close>.
\<close>

definition press_alternative :: "nat \<Rightarrow> quiz_app \<Rightarrow> outcome" where
  "press_alternative i app =
     (if i < length (alternative_buttons app) \<and> btn_state (alternative_buttons app ! i) = Normal
      then check_answer (int i) app
      else Returned app)"

definition press_next :: "quiz_app \<Rightarrow> outcome" where
  "press_next app =
     (if btn_state (next_button app) = Normal then next_question app else Returned app)"

text \<open>
  A sequence of calls of the two operations, whoever makes them, on a live application:
  an exception is reported and the next call is served; after \<open>Quit\<close> no call is served.
\<close>

datatype operation = SubmitAnswer int | Advance

definition step :: "operation \<Rightarrow> quiz_app \<Rightarrow> outcome" where
  "step op app = (case op of SubmitAnswer a \<Rightarrow> check_answer a app | Advance \<Rightarrow> next_question app)"

fun run :: "quiz_app \<Rightarrow> operation list \<Rightarrow> outcome" where
  "run app [] = Returned app"
| "run app (op # ops) =
     (case step op app of
        Returned app' \<Rightarrow> run app' ops
      | Raised e app' \<Rightarrow> run app' ops
      | Quit d app' \<Rightarrow> Quit d app')"

section \<open>The vocabulary of the specification\<close>

text \<open>The spec's three tiers; the program shows one message for each.\<close>

datatype tier = Perfect | Pass | Fail

definition tier_spec :: "int \<Rightarrow> int \<Rightarrow> tier" where
  "tier_spec sc tot = (if sc = tot then Perfect else if sc \<ge> tot div 2 then Pass else Fail)"

fun tier_message :: "tier \<Rightarrow> string" where
  "tier_message Perfect = ''Congratulations! You've passed the quiz with a perfect score.''"
| "tier_message Pass = ''You've achieved a good score.''"
| "tier_message Fail = ''You've failed the quiz. Better luck next time!''"

text \<open>The current question's correct index, when the current record has one.\<close>

definition current_correct_answer :: "quiz_app \<Rightarrow> json option" where
  "current_correct_answer app =
     (case py_getitem (quiz_questions app) (JInt (current_question_index app)) of
        Inl e \<Rightarrow> None
      | Inr question_data \<Rightarrow>
          (case py_getitem question_data (JStr ''correct_answer'') of
             Inl e \<Rightarrow> None
           | Inr c \<Rightarrow> Some c))"


text \<open>
  The answers of a sequence of calls that were compared with a correct index, in order:
  \<open>True\<close> for an answer equal to it. A call of \<^verbatim>\<open>check_answer\<close> that finds no current
  record, or no correct index in it, raises before it compares and answers no question.
\<close>

definition verdict :: "operation \<Rightarrow> quiz_app \<Rightarrow> bool list" where
  "verdict op app =
     (case op of
        Advance \<Rightarrow> []
      | SubmitAnswer a \<Rightarrow>
          (case current_correct_answer app of None \<Rightarrow> [] | Some c \<Rightarrow> [py_eq_int a c]))"

fun verdicts :: "quiz_app \<Rightarrow> operation list \<Rightarrow> bool list" where
  "verdicts app [] = []"
| "verdicts app (op # ops) =
     verdict op app @
     (case step op app of
        Returned app' \<Rightarrow> verdicts app' ops
      | Raised e app' \<Rightarrow> verdicts app' ops
      | Quit d app' \<Rightarrow> [])"

section \<open>Question files used as concrete inputs\<close>

definition question :: "string \<Rightarrow> string list \<Rightarrow> int \<Rightarrow> json" where
  "question q alts c =
     JDict [(''question'', JStr q), (''alternatives'', JList (map JStr alts)), (''correct_answer'', JInt c)]"

text \<open>The two questions of the spec's end-to-end scenario.\<close>

definition scenario_quiz :: json where
  "scenario_quiz = JList [question ''Q1'' [''a'', ''b'', ''c''] 1, question ''Q2'' [''x'', ''y'', ''z''] 0]"

definition scenario_app :: quiz_app where
  "scenario_app = the_app (init_app (Parsed scenario_quiz))"







section \<open>Properties\<close>

lemmas method_defs = check_answer_def answer_correct_def answer_incorrect_def finish_answer_def
  load_question_def reset_widgets_def next_question_def show_final_results_def

lemmas eval_defs = method_defs init_app_def setup_widgets_def new_alternative_button_def
  py_index_def config_at_def config_at_json_def question_def press_alternative_def step_def

lemma score_check_answer:
  "score (app_of (check_answer a app)) =
     (case current_correct_answer app of
        Some c \<Rightarrow> if py_eq_int a c then score app + 1 else score app - 1
      | None \<Rightarrow> score app)"
  by (simp add: method_defs current_correct_answer_def Let_def split: sum.splits)

lemma load_question_frame:
  "score (app_of (load_question app)) = score app"
  "total_questions (app_of (load_question app)) = total_questions app"
  "quiz_questions (app_of (load_question app)) = quiz_questions app"
  "current_question_index (app_of (load_question app)) = current_question_index app"
  by (simp_all add: load_question_def reset_widgets_def Let_def split: sum.splits prod.splits option.splits)

lemma load_question_not_Quit: "\<not> is_Quit (load_question app)"
  by (simp add: load_question_def Let_def split: sum.splits prod.splits option.splits)

lemma check_answer_frame:
  "total_questions (app_of (check_answer a app)) = total_questions app"
  "quiz_questions (app_of (check_answer a app)) = quiz_questions app"
  "current_question_index (app_of (check_answer a app)) = current_question_index app"
  by (simp_all add: method_defs Let_def split: sum.splits)

lemma check_answer_not_Quit: "\<not> is_Quit (check_answer a app)"
  by (simp add: method_defs Let_def split: sum.splits)

lemma next_question_frame:
  "score (app_of (next_question app)) = score app"
  "total_questions (app_of (next_question app)) = total_questions app"
  "quiz_questions (app_of (next_question app)) = quiz_questions app"
  by (simp_all add: next_question_def show_final_results_def load_question_frame Let_def)

lemma step_frame:
  "total_questions (app_of (step op app)) = total_questions app"
  "quiz_questions (app_of (step op app)) = quiz_questions app"
  by (simp_all add: step_def check_answer_frame next_question_frame split: operation.splits)

lemma step_Quit:
  "step op app = Quit d app' \<Longrightarrow>
     d = ShowInfo ''Quiz Over'' (final_text (score app') (total_questions app'))"
proof (cases op)
  case (SubmitAnswer a)
  assume "step op app = Quit d app'"
  with SubmitAnswer have "is_Quit (check_answer a app)" by (simp add: step_def)
  then show ?thesis by (simp add: check_answer_not_Quit)
next
  case Advance
  assume q: "step op app = Quit d app'"
  let ?app = "app\<lparr>current_question_index := current_question_index app + 1\<rparr>"
  show ?thesis
  proof (cases "current_question_index ?app < total_questions ?app")
    case True
    with q Advance have "is_Quit (load_question ?app)"
      by (simp add: step_def next_question_def Let_def)
    then show ?thesis by (simp add: load_question_not_Quit)
  next
    case False
    with q Advance show ?thesis
      by (auto simp add: step_def next_question_def show_final_results_def Let_def)
  qed
qed

lemma step_score:
  "score (app_of (step op app)) =
     score app + int (count_list (verdict op app) True) - int (count_list (verdict op app) False)"
  by (cases op)
     (simp_all add: step_def verdict_def score_check_answer next_question_frame split: option.splits)

lemma run_score:
  "score (app_of (run app ops)) =
     score app + int (count_list (verdicts app ops) True)
               - int (count_list (verdicts app ops) False)"
proof (induction ops arbitrary: app)
  case Nil
  show ?case by simp
next
  case (Cons op ops)
  show ?case
  proof (cases "step op app")
    case (Returned app')
    with step_score [of op app]
    have "score app' = score app + int (count_list (verdict op app) True)
                                 - int (count_list (verdict op app) False)" by simp
    with Returned Cons.IH [of app'] show ?thesis by simp
  next
    case (Raised e app')
    with step_score [of op app]
    have "score app' = score app + int (count_list (verdict op app) True)
                                 - int (count_list (verdict op app) False)" by simp
    with Raised Cons.IH [of app'] show ?thesis by simp
  next
    case (Quit d app')
    with step_score [of op app]
    have "score app' = score app + int (count_list (verdict op app) True)
                                 - int (count_list (verdict op app) False)" by simp
    with Quit show ?thesis by simp
  qed
qed

lemma run_frame:
  "total_questions (app_of (run app ops)) = total_questions app \<and>
   quiz_questions (app_of (run app ops)) = quiz_questions app"
proof (induction ops arbitrary: app)
  case Nil
  show ?case by simp
next
  case (Cons op ops)
  show ?case
  proof (cases "step op app")
    case (Returned app')
    with step_frame [of op app]
    have "total_questions app' = total_questions app \<and> quiz_questions app' = quiz_questions app"
      by simp
    with Returned Cons.IH [of app'] show ?thesis by simp
  next
    case (Raised e app')
    with step_frame [of op app]
    have "total_questions app' = total_questions app \<and> quiz_questions app' = quiz_questions app"
      by simp
    with Raised Cons.IH [of app'] show ?thesis by simp
  next
    case (Quit d app')
    with step_frame [of op app]
    have "total_questions app' = total_questions app \<and> quiz_questions app' = quiz_questions app"
      by simp
    with Quit show ?thesis by simp
  qed
qed

lemma run_Quit:
  "run app ops = Quit d app' \<Longrightarrow>
     d = ShowInfo ''Quiz Over'' (final_text (score app') (total_questions app'))"
proof (induction ops arbitrary: app)
  case Nil
  then show ?case by simp
next
  case (Cons op ops)
  show ?case
  proof (cases "step op app")
    case (Returned a)
    with Cons.prems have "run a ops = Quit d app'" by simp
    then show ?thesis by (rule Cons.IH)
  next
    case (Raised e a)
    with Cons.prems have "run a ops = Quit d app'" by simp
    then show ?thesis by (rule Cons.IH)
  next
    case (Quit d2 a)
    with Cons.prems have "step op app = Quit d app'" by simp
    then show ?thesis by (rule step_Quit)
  qed
qed

lemma init_app_Started:
  "init_app src = Started app \<Longrightarrow>
     \<exists>qs tot. src = Parsed qs \<and> py_len qs = Inr tot \<and> score app = 0 \<and> total_questions app = tot
        \<and> quiz_questions app = qs \<and> current_question_index app = 0"
proof -
  assume s: "init_app src = Started app"
  then obtain qs where src: "src = Parsed qs"
    by (cases src) (simp_all add: init_app_def)
  with s obtain tot where len: "py_len qs = Inr tot"
    by (cases "py_len qs") (simp_all add: init_app_def)
  with s src have "load_question (setup_widgets qs 0 tot 0) = Returned app"
    by (cases "load_question (setup_widgets qs 0 tot 0)") (simp_all add: init_app_def)
  then have "app = app_of (load_question (setup_widgets qs 0 tot 0))" by simp
  then have "score app = 0 \<and> total_questions app = tot \<and> quiz_questions app = qs
      \<and> current_question_index app = 0"
    by (simp add: load_question_frame setup_widgets_def)
  with src len show ?thesis by simp
qed


lemma count_verdicts: "count_list vs True + count_list vs False = length vs"
  by (induction vs) auto

text \<open>
  Claim C1. The final dialog carries the message of the tier that the fixed thresholds give,
  tried in order: Perfect when the score equals the total, else Pass when the score is at
  least the total halved with floor division, else Fail. The three messages differ, so the
  message tells the tier. At total 5, score 2 is Pass and score 1 is Fail; at total 10,
  score 5 is Pass, score 4 is Fail and score 10 is Perfect.
\<close>
theorem tier_by_thresholds:
  "final (show_final_results app) =
     ShowInfo ''Quiz Over''
       (FString [Lit ''Quiz Completed!\<newline>\<newline>Your final score is '', Fmt (JInt (score app)),
                 Lit '' out of '', Fmt (JInt (total_questions app)), Lit ''.\<newline>\<newline>'',
                 Lit (tier_message (tier_spec (score app) (total_questions app)))])
   \<and> result_message sc tot = tier_message (tier_spec sc tot)
   \<and> tier_message Perfect \<noteq> tier_message Pass
   \<and> tier_message Perfect \<noteq> tier_message Fail
   \<and> tier_message Pass \<noteq> tier_message Fail
   \<and> result_message 2 5 = tier_message Pass
   \<and> result_message 1 5 = tier_message Fail
   \<and> result_message 5 10 = tier_message Pass
   \<and> result_message 4 10 = tier_message Fail
   \<and> result_message 10 10 = tier_message Perfect"
proof -
  have msg: "result_message s t = tier_message (tier_spec s t)" for s t
    by (simp add: result_message_def tier_spec_def)
  have shown: "final (show_final_results app) =
     ShowInfo ''Quiz Over'' (final_text (score app) (total_questions app))"
    by (simp add: show_final_results_def)
  have distinct: "tier_message Perfect \<noteq> tier_message Pass
     \<and> tier_message Perfect \<noteq> tier_message Fail \<and> tier_message Pass \<noteq> tier_message Fail"
    by simp
  have examples: "tier_spec 2 5 = Pass \<and> tier_spec 1 5 = Fail \<and> tier_spec 5 10 = Pass
     \<and> tier_spec 4 10 = Fail \<and> tier_spec 10 10 = Perfect"
    by (simp add: tier_spec_def)
  from shown distinct examples show ?thesis
    by (simp only: msg final_text_def) simp
qed

text \<open>
  Claim C2. In every state whose current question has the integer \<open>c\<close> as its correct
  index, and for every answer \<open>a\<close>, \<^verbatim>\<open>check_answer\<close> leaves the score exactly one
  higher when \<open>a = c\<close> and exactly one lower when \<open>a \<noteq> c\<close>, whether or not the call
  raises afterwards.
\<close>
theorem check_answer_changes_score_by_one:
  assumes "py_getitem (quiz_questions app) (JInt (current_question_index app)) = Inr question_data"
    and "py_getitem question_data (JStr ''correct_answer'') = Inr (JInt c)"
  shows "score (app_of (check_answer a app)) = (if a = c then score app + 1 else score app - 1)"
proof -
  from assms have "current_correct_answer app = Some (JInt c)"
    by (simp add: current_correct_answer_def)
  with score_check_answer [of a app] show ?thesis by simp
qed

text \<open>
  Claim C3. From a freshly started application, after any sequence of calls the score is
  the number of answers that were correct minus the number that were incorrect, and so
  lies between \<open>-N\<close> and \<open>N\<close> for the \<open>N\<close> answers compared.
\<close>
theorem score_is_correct_minus_incorrect:
  assumes "init_app src = Started app"
  shows "score (app_of (run app ops)) =
           int (count_list (verdicts app ops) True) - int (count_list (verdicts app ops) False)
         \<and> - int (length (verdicts app ops)) \<le> score (app_of (run app ops))
         \<and> score (app_of (run app ops)) \<le> int (length (verdicts app ops))"
proof -
  from assms have "score app = 0" by (auto dest: init_app_Started)
  with run_score [of app ops]
  have eq: "score (app_of (run app ops)) =
      int (count_list (verdicts app ops) True) - int (count_list (verdicts app ops) False)"
    by simp
  with count_verdicts [of "verdicts app ops"] show ?thesis by linarith
qed

lemma init_scenario: "init_app (Parsed scenario_quiz) = Started scenario_app"
  by (simp add: scenario_app_def scenario_quiz_def eval_defs)

lemma scenario_app_eq:
  "scenario_app = app_of (load_question (setup_widgets scenario_quiz 0 2 0))"
  by (simp add: scenario_app_def scenario_quiz_def eval_defs)

theorem score_is_correct_minus_incorrect_witness:
  "init_app (Parsed scenario_quiz) = Started scenario_app
   \<and> verdicts scenario_app [SubmitAnswer 1, Advance, SubmitAnswer 2, Advance] = [True, False]
   \<and> score (app_of (run scenario_app [SubmitAnswer 1, Advance, SubmitAnswer 2, Advance])) = 0"
proof -
  have v: "verdicts scenario_app [SubmitAnswer 1, Advance, SubmitAnswer 2, Advance] = [True, False]"
    by (simp add: scenario_app_eq scenario_quiz_def eval_defs verdict_def current_correct_answer_def)
  from v init_scenario
    score_is_correct_minus_incorrect [OF init_scenario,
      of "[SubmitAnswer 1, Advance, SubmitAnswer 2, Advance]"]
  show ?thesis by simp
qed

lemma scenario_first_question:
  "py_getitem (quiz_questions scenario_app) (JInt (current_question_index scenario_app)) =
     Inr (question ''Q1'' [''a'', ''b'', ''c''] 1)"
  by (simp add: scenario_app_eq load_question_frame setup_widgets_def scenario_quiz_def py_index_def)

theorem check_answer_changes_score_by_one_witness:
  "py_getitem (question ''Q1'' [''a'', ''b'', ''c''] 1) (JStr ''correct_answer'') = Inr (JInt 1)
   \<and> score scenario_app = 0
   \<and> score (app_of (check_answer 1 scenario_app)) = 1
   \<and> score (app_of (check_answer 0 scenario_app)) = - 1
   \<and> score (app_of (check_answer 2 scenario_app)) = - 1"
proof -
  have c: "py_getitem (question ''Q1'' [''a'', ''b'', ''c''] 1) (JStr ''correct_answer'') = Inr (JInt 1)"
    by (simp add: question_def)
  have s: "score scenario_app = 0"
    by (simp add: scenario_app_eq load_question_frame setup_widgets_def)
  from c s
    check_answer_changes_score_by_one [OF scenario_first_question c, of 1]
    check_answer_changes_score_by_one [OF scenario_first_question c, of 0]
    check_answer_changes_score_by_one [OF scenario_first_question c, of 2]
  show ?thesis by simp
qed

text \<open>
  Claim C9. \<^verbatim>\<open>total_questions\<close> is the length of the loaded question set, no
  sequence of calls changes it or the question set, and the final dialog, when the
  sequence reaches it, reports that total.
\<close>
theorem total_is_number_of_questions_loaded:
  assumes "init_app (Parsed qs) = Started app"
  shows "py_len qs = Inr (total_questions app)
         \<and> total_questions (app_of (run app ops)) = total_questions app
         \<and> quiz_questions (app_of (run app ops)) = qs
         \<and> (is_Quit (run app ops) \<longrightarrow>
              final (run app ops) =
                ShowInfo ''Quiz Over''
                  (FString [Lit ''Quiz Completed!\<newline>\<newline>Your final score is '',
                            Fmt (JInt (score (app_of (run app ops)))),
                            Lit '' out of '', Fmt (JInt (total_questions app)), Lit ''.\<newline>\<newline>'',
                            Lit (result_message (score (app_of (run app ops))) (total_questions app))]))"
proof -
  from assms have start: "py_len qs = Inr (total_questions app) \<and> quiz_questions app = qs"
    by (auto dest: init_app_Started)
  have frame: "total_questions (app_of (run app ops)) = total_questions app
      \<and> quiz_questions (app_of (run app ops)) = quiz_questions app"
    by (rule run_frame)
  have "final (run app ops) =
      ShowInfo ''Quiz Over'' (final_text (score (app_of (run app ops))) (total_questions app))"
    if "is_Quit (run app ops)"
  proof -
    from that obtain d app' where q: "run app ops = Quit d app'"
      by (cases "run app ops") simp_all
    from run_Quit [OF q] q frame show ?thesis by simp
  qed
  with start frame show ?thesis by (simp add: final_text_def)
qed

theorem total_is_number_of_questions_loaded_witness:
  "init_app (Parsed scenario_quiz) = Started scenario_app
   \<and> py_len scenario_quiz = Inr 2
   \<and> total_questions (app_of (run scenario_app [SubmitAnswer 1, Advance, SubmitAnswer 2, Advance])) = 2
   \<and> is_Quit (run scenario_app [SubmitAnswer 1, Advance, SubmitAnswer 2, Advance])
   \<and> final (run scenario_app [SubmitAnswer 1, Advance, SubmitAnswer 2, Advance]) =
       ShowInfo ''Quiz Over''
         (FString [Lit ''Quiz Completed!\<newline>\<newline>Your final score is '', Fmt (JInt 0),
                   Lit '' out of '', Fmt (JInt 2), Lit ''.\<newline>\<newline>'',
                   Lit ''You've failed the quiz. Better luck next time!''])"
proof -
  have q: "is_Quit (run scenario_app [SubmitAnswer 1, Advance, SubmitAnswer 2, Advance])"
    by (simp add: scenario_app_eq scenario_quiz_def eval_defs)
  have s: "score (app_of (run scenario_app [SubmitAnswer 1, Advance, SubmitAnswer 2, Advance])) = 0"
    by (simp add: scenario_app_eq scenario_quiz_def eval_defs)
  have t: "total_questions scenario_app = 2"
    by (simp add: scenario_app_eq load_question_frame setup_widgets_def)
  from q s t init_scenario
    total_is_number_of_questions_loaded [OF init_scenario,
      of "[SubmitAnswer 1, Advance, SubmitAnswer 2, Advance]"]
  show ?thesis by (simp add: result_message_def)
qed

text \<open>
  Claim C8. When the question file is missing, \<^verbatim>\<open>__init__\<close> shows the error dialog,
  destroys the root window and returns before any state variable is assigned: no
  application is started.
\<close>
theorem missing_source_aborts:
  "init_app FileMissing = Aborted (ShowError ''Error'' ''quiz_questions.json not found!'')
   \<and> \<not> is_Started (init_app FileMissing) \<and> \<not> is_Crashed (init_app FileMissing)"
  by (simp add: init_app_def)

text \<open>
  Claim C4. An empty question list has length 0, and score 0 of total 0 would be the
  Perfect tier; but \<^verbatim>\<open>__init__\<close> calls \<^verbatim>\<open>load_question\<close> without the test
  \<^verbatim>\<open>next_question\<close> makes, and reading question 0 of the empty list raises
  \<^verbatim>\<open>IndexError\<close>.
\<close>
theorem empty_list_crashes:
  "py_len (JList []) = Inr 0
   \<and> init_app (Parsed (JList [])) = Crashed IndexError
   \<and> result_message 0 0 = tier_message Perfect"
  by (simp add: eval_defs result_message_def)







lemma map_update_same: "(map g xs)[j := g (xs ! j)] = map g xs"
proof (cases "j < length xs")
  case True
  then have "g (xs ! j) = map g xs ! j" by simp
  then show ?thesis by (simp only: list_update_id)
next
  case False
  then show ?thesis by (simp add: list_update_beyond)
qed

lemma config_at_bg_states:
  "config_at bs i (btn_bg_update f) = Inr bs' \<Longrightarrow> map btn_state bs' = map btn_state bs"
  by (auto simp add: config_at_def Let_def map_update map_update_same split: if_splits)

lemma config_at_json_bg_states:
  "config_at_json bs k (btn_bg_update f) = Inr bs' \<Longrightarrow> map btn_state bs' = map btn_state bs"
  by (auto simp add: config_at_json_def split: option.splits dest: config_at_bg_states)

lemma check_answer_button_states:
  "map btn_state (alternative_buttons (app_of (check_answer a app))) =
     map (\<lambda>b. Disabled) (alternative_buttons app)"
  by (auto simp add: method_defs Let_def split: sum.splits
           dest!: config_at_bg_states config_at_json_bg_states)

text \<open>
  Claim C6, as the program has it. \<^verbatim>\<open>check_answer\<close> has no guard on the state and
  raises no error of its own; what keeps a question from being answered twice is that,
  whatever the answer and whether or not the call raises, it leaves every answer button
  disabled, so that a press on any of them runs nothing: no error, and the application
  (its score too) stays as it is.
\<close>
theorem answered_question_cannot_be_answered_again:
  "(\<forall>b \<in> set (alternative_buttons (app_of (check_answer a app))). btn_state b = Disabled)
   \<and> press_alternative i (app_of (check_answer a app)) = Returned (app_of (check_answer a app))"
proof -
  let ?bs = "alternative_buttons (app_of (check_answer a app))"
  have "set (map btn_state ?bs) \<subseteq> {Disabled}"
    by (simp only: check_answer_button_states) auto
  then have all: "\<forall>b \<in> set ?bs. btn_state b = Disabled" by auto
  then have "\<not> (i < length ?bs \<and> btn_state (?bs ! i) = Normal)" by auto
  then have "press_alternative i (app_of (check_answer a app)) = Returned (app_of (check_answer a app))"
    unfolding press_alternative_def by (simp only: if_False)
  with all show ?thesis by simp
qed


theorem answered_question_cannot_be_answered_again_witness:
  "alternative_buttons (app_of (check_answer 1 scenario_app)) ! 1 \<in>
      set (alternative_buttons (app_of (check_answer 1 scenario_app)))
   \<and> btn_state (alternative_buttons (app_of (check_answer 1 scenario_app)) ! 1) = Disabled
   \<and> press_alternative 1 (app_of (check_answer 1 scenario_app)) =
        Returned (app_of (check_answer 1 scenario_app))"
proof -
  have "length (alternative_buttons (app_of (check_answer 1 scenario_app))) = 3"
    by (simp add: scenario_app_eq scenario_quiz_def eval_defs)
  then have mem: "alternative_buttons (app_of (check_answer 1 scenario_app)) ! 1 \<in>
      set (alternative_buttons (app_of (check_answer 1 scenario_app)))"
    by simp
  with answered_question_cannot_be_answered_again [of 1 scenario_app 1] show ?thesis
    by blast
qed

text \<open>
  Called a second time on the first question of the scenario, \<^verbatim>\<open>check_answer\<close>
  returns normally and scores the answer again.
\<close>
theorem second_answer_is_scored_counterexample:
  "is_Returned (check_answer 1 scenario_app)
   \<and> score (app_of (check_answer 1 scenario_app)) = 1
   \<and> is_Returned (check_answer 1 (app_of (check_answer 1 scenario_app)))
   \<and> score (app_of (check_answer 1 (app_of (check_answer 1 scenario_app)))) = 2"
  by (simp add: scenario_app_eq scenario_quiz_def eval_defs)
















end
